theory Spec2Isabelle
  imports Main
begin

section \<open>Exceptions and Python helpers\<close>

text \<open>
  Every exception of the source is a value. \<open>ValueError\<close> and \<open>KeyError\<close> are the two
  built-in exceptions the modelled code raises itself; \<open>UpstreamError\<close> stands for whatever
  the language-model service or the tracker service raises. \<open>exn_msg\<close> is Python's
  \<open>str(e)\<close>, which the controller interpolates into its error strings (for a
  \<open>KeyError\<close> Python prints the quoted key).
\<close>

datatype exn = ValueError string | KeyError string | UpstreamError string

fun exn_msg :: "exn \<Rightarrow> string" where
  "exn_msg (ValueError m) = m"
| "exn_msg (KeyError k) = [CHR 0x27] @ k @ [CHR 0x27]"
| "exn_msg (UpstreamError m) = m"

text \<open>\<open>sep.join(xs)\<close> for a list of strings.\<close>

fun join :: "string \<Rightarrow> string list \<Rightarrow> string" where
  "join sep [] = []"
| "join sep [x] = x"
| "join sep (x # y # ys) = x @ sep @ join sep (y # ys)"

text \<open>\<open>x or d\<close> on strings: the empty string is falsy.\<close>

definition or_else :: "string \<Rightarrow> string \<Rightarrow> string" where
  "or_else x d = (if x = [] then d else x)"

text \<open>\<open>d.get(k, default)\<close> on an optional field of a typed dictionary.\<close>

fun get_or :: "'a option \<Rightarrow> 'a \<Rightarrow> 'a" where
  "get_or None d = d"
| "get_or (Some v) d = v"

text \<open>
  \<open>template.format(**kwargs)\<close>, for templates whose replacement fields are plain names
  (both templates of the source are): \<open>{{\<close> and \<open>}}\<close> are escaped braces, \<open>{name}\<close> is
  replaced by the keyword argument of that name, a missing argument raises \<open>KeyError\<close>,
  a lone \<open>}\<close> or an unclosed \<open>{\<close> raises \<open>ValueError\<close>. The values substituted are not
  parsed again.
\<close>

definition single_brace_msg :: "char \<Rightarrow> string" where
  "single_brace_msg c = ''Single '' @ [CHR 0x27, c, CHR 0x27] @ '' encountered in format string''"

definition unclosed_field_msg :: string where
  "unclosed_field_msg = ''expected '' @ [CHR 0x27] @ ''}'' @ [CHR 0x27] @ '' before end of string''"

fun field_name :: "string \<Rightarrow> (string \<times> string) option" where
  "field_name [] = None"
| "field_name (c # cs) =
     (if c = CHR ''}'' then Some ([], cs)
      else (case field_name cs of
              None \<Rightarrow> None
            | Some (n, rest) \<Rightarrow> Some (c # n, rest)))"

lemma field_name_shorter: "field_name cs = Some (n, rest) \<Longrightarrow> length rest < length cs"
  by (induction cs arbitrary: n rest) (auto split: if_splits option.splits)

function format_str :: "string \<Rightarrow> (string \<times> string) list \<Rightarrow> exn + string" where
  "format_str [] kwargs = Inr []"
| "format_str (c # cs) kwargs =
     (if c = CHR ''{'' then
        (case cs of
           [] \<Rightarrow> Inl (ValueError (single_brace_msg (CHR ''{'')))
         | d # ds \<Rightarrow>
             if d = CHR ''{'' then
               (case format_str ds kwargs of Inl e \<Rightarrow> Inl e | Inr out \<Rightarrow> Inr (CHR ''{'' # out))
             else
               (case field_name cs of
                  None \<Rightarrow> Inl (ValueError unclosed_field_msg)
                | Some (n, rest) \<Rightarrow>
                    (case map_of kwargs n of
                       None \<Rightarrow> Inl (KeyError n)
                     | Some v \<Rightarrow>
                         (case format_str rest kwargs of
                            Inl e \<Rightarrow> Inl e
                          | Inr out \<Rightarrow> Inr (v @ out)))))
      else if c = CHR ''}'' then
        (case cs of
           [] \<Rightarrow> Inl (ValueError (single_brace_msg (CHR ''}'')))
         | d # ds \<Rightarrow>
             if d = CHR ''}'' then
               (case format_str ds kwargs of Inl e \<Rightarrow> Inl e | Inr out \<Rightarrow> Inr (CHR ''}'' # out))
             else Inl (ValueError (single_brace_msg (CHR ''}''))))
      else
        (case format_str cs kwargs of Inl e \<Rightarrow> Inl e | Inr out \<Rightarrow> Inr (c # out)))"
  by pat_completeness auto
termination
  by (relation "measure (\<lambda>(t, _). length t)") (auto split: if_splits option.splits dest: field_name_shorter)

section \<open>Data model\<close>

text \<open>
  A story outline is a dictionary read from the configuration file. The model keeps the
  eight keys of the data model, each optional (\<open>None\<close>: the key is absent), with the types
  the data model gives them. \<open>empty_dict\<close> is the story with no key at all: Python's
  \<open>not story\<close> holds for it as it does for \<open>None\<close>.
\<close>

record story =
  title :: "string option"
  description :: "string option"
  priority :: "string option"
  labels :: "string list option"
  components :: "string list option"
  project :: "string option"
  issue_type :: "string option"
  epic :: "string option"

definition empty_dict :: story where
  "empty_dict = \<lparr>title = None, description = None, priority = None, labels = None,
     components = None, project = None, issue_type = None, epic = None\<rparr>"

section \<open>Prompt builder\<close>

definition nl :: string where
  "nl = [CHR 0x0A]"

text \<open>
  The template of the source, after \<open>.strip()\<close>, in three pieces: the instructions up to
  the story information, the five lines with the replacement fields, and the closing
  request.
\<close>

definition prompt_instructions :: string where
  \<open>prompt_instructions =
     ''You are an expert product manager and technical writer specializing in creating detailed, '' @ nl @
     ''actionable user stories for software development teams.'' @ nl @
     nl @
     ''Your task is to expand the given story outline into a comprehensive JIRA story that includes:'' @ nl @
     nl @
     ''1. **Clear User Story**: A well-structured user story following the "As a [user], I want [goal] so that [benefit]" format'' @ nl @
     ''2. **Detailed Description**: Comprehensive explanation of the feature/requirement'' @ nl @
     ''3. **Acceptance Criteria**: Specific, testable criteria that define when the story is complete'' @ nl @
     ''4. **Technical Considerations**: Any technical notes or considerations for implementation'' @ nl @
     ''5. **Definition of Done**: Clear criteria for story completion'' @ nl @
     nl @
     ''Guidelines:'' @ nl @
     ''- Write in clear, professional language'' @ nl @
     ''- Make acceptance criteria specific and testable'' @ nl @
     ''- Consider edge cases and error scenarios'' @ nl @
     ''- Include relevant technical details without being overly prescriptive'' @ nl @
     ''- Ensure the story is sized appropriately (not too large for a single sprint)'' @ nl @
     nl @
     ''Original Story Information:'' @ nl\<close>

definition prompt_closing :: string where
  "prompt_closing =
     nl @ ''Please expand this into a comprehensive JIRA story following the structure above.''"

definition base_prompt :: string where
  "base_prompt =
     prompt_instructions @
     ''Title: {title}'' @ nl @
     ''Description: {description}'' @ nl @
     ''Priority: {priority}'' @ nl @
     ''Labels: {labels}'' @ nl @
     ''Components: {components}'' @ nl @
     prompt_closing"

text \<open>\<open>", ".join(story.get(key, [])) or "None"\<close> for the two list-valued keys.\<close>

definition joined_or_none :: "string list option \<Rightarrow> string" where
  "joined_or_none xs = or_else (join '', '' (get_or xs [])) ''None''"

definition generate_expansion_prompt :: "story \<Rightarrow> exn + string" where
  "generate_expansion_prompt s =
     format_str base_prompt
       [(''title'', get_or (title s) ''Untitled Story''),
        (''description'', get_or (description s) ''No description provided''),
        (''priority'', get_or (priority s) ''Medium''),
        (''labels'', joined_or_none (labels s)),
        (''components'', joined_or_none (components s))]"

section \<open>Issue payloads\<close>

text \<open>
  The payload sent to the tracker and the issue reference it returns are dictionaries
  with values of several shapes. A dictionary is an association list in insertion order;
  \<open>map_of\<close> is the lookup, \<open>dict_set\<close> is \<open>d[k] = v\<close>.
\<close>

datatype jval =
    JNull
  | JBool bool
  | JStr string
  | JList "jval list"
  | JDict "(string \<times> jval) list"

type_synonym dict = "(string \<times> jval) list"

fun dict_set :: "dict \<Rightarrow> string \<Rightarrow> jval \<Rightarrow> dict" where
  "dict_set [] k v = [(k, v)]"
| "dict_set ((k', v') # d) k v =
     (if k' = k then (k, v) # d else (k', v') # dict_set d k v)"

text \<open>\<open>d.get(k)\<close>: Python's \<open>None\<close> for an absent key.\<close>

definition dict_get :: "dict \<Rightarrow> string \<Rightarrow> jval" where
  "dict_get d k = (case map_of d k of None \<Rightarrow> JNull | Some v \<Rightarrow> v)"

text \<open>\<open>isinstance(v, dict) and k in v\<close>, for the value stored under a key that is present.\<close>

fun dict_with_key :: "jval option \<Rightarrow> string \<Rightarrow> bool" where
  "dict_with_key (Some (JDict d)) k = (map_of d k \<noteq> None)"
| "dict_with_key _ k = False"

section \<open>Settings and configuration\<close>

text \<open>
  The settings read from the environment (the fields the modelled code reads), the
  \<open>global\<close> section of the configuration file and the configuration itself. A key of the
  configuration that is absent is \<open>None\<close>.
\<close>

record settings =
  jira_url :: string
  jira_project_key :: string
  timeout_seconds :: int
  max_retries :: int

record global_config =
  g_project :: "string option"
  g_labels :: "string list option"
  g_components :: "string list option"
  g_epic :: "string option"

definition no_global :: global_config where
  "no_global = \<lparr>g_project = None, g_labels = None, g_components = None, g_epic = None\<rparr>"

record config =
  cfg_global :: "global_config option"
  cfg_stories :: "story list option"

section \<open>Issue field derivation\<close>

text \<open>Truthiness of an optional string: \<open>None\<close> and the empty string are falsy.\<close>

fun truthy_str :: "string option \<Rightarrow> bool" where
  "truthy_str None = False"
| "truthy_str (Some s) = (s \<noteq> [])"

text \<open>\<open>story.get(key, global_config.get(key))\<close> for a key with no further default.\<close>

fun get_or_opt :: "'a option \<Rightarrow> 'a option \<Rightarrow> 'a option" where
  "get_or_opt None d = d"
| "get_or_opt (Some v) d = Some v"

definition prepare_issue_data :: "settings \<Rightarrow> config \<Rightarrow> story \<Rightarrow> string \<Rightarrow> dict" where
  "prepare_issue_data st cfg s expanded_content =
     (let global = get_or (cfg_global cfg) no_global;
          issue_data =
            [(''project'',
                JDict [(''key'',
                  JStr (get_or (project s) (get_or (g_project global) (jira_project_key st))))]),
             (''summary'', JStr (get_or (title s) ''Generated Story'')),
             (''description'', JStr expanded_content),
             (''issuetype'', JDict [(''name'', JStr (get_or (issue_type s) ''Story''))])];
          lbls = get_or (labels s) (get_or (g_labels global) []);
          issue_data =
            (if lbls \<noteq> [] then dict_set issue_data ''labels'' (JList (map JStr lbls))
             else issue_data);
          comps = get_or (components s) (get_or (g_components global) []);
          issue_data =
            (if comps \<noteq> []
             then dict_set issue_data ''components''
                    (JList (map (\<lambda>comp. JDict [(''name'', JStr comp)]) comps))
             else issue_data);
          epic_key = get_or_opt (epic s) (g_epic global);
          issue_data =
            (if truthy_str epic_key
             then dict_set issue_data ''customfield_10014'' (JStr (get_or epic_key []))
             else issue_data)
      in issue_data)"

section \<open>Collaborators\<close>

text \<open>
  The language-model service and the tracker service are outside the program. Each is a
  function of the number of calls made so far and of the request, returning a response or
  an exception. The world records every request sent, in order, and holds the lazily
  created chat client with its maximum output tokens (its sampling temperature, a float
  that no modelled function reads, is left out).
\<close>

record chat_openai =
  model_name :: string
  max_tokens :: int
  timeout :: int
  chat_max_retries :: int

record world =
  chat :: "chat_openai option"
  llm_log :: "string list"
  jira_log :: "dict list"

type_synonym llm = "nat \<Rightarrow> string \<Rightarrow> exn + string list list"

type_synonym tracker = "nat \<Rightarrow> dict \<Rightarrow> exn + (string \<times> string)"

subsection \<open>Completion client\<close>

text \<open>The \<open>client\<close> property: the chat client is created on first use, with 1000 tokens.\<close>

definition client :: "settings \<Rightarrow> world \<Rightarrow> chat_openai \<times> world" where
  "client st w =
     (case chat w of
        None \<Rightarrow>
          (let c = \<lparr>model_name = ''gpt-4'', max_tokens = 1000,
                    timeout = timeout_seconds st, chat_max_retries = max_retries st\<rparr>
           in (c, w\<lparr>chat := Some c\<rparr>))
      | Some c \<Rightarrow> (c, w))"

text \<open>
  \<open>agenerate\<close>: one request to the service; an exception of the service is raised again, a
  response with no candidate raises \<open>ValueError\<close>, otherwise the first candidate's text is
  the content returned.
\<close>

definition agenerate :: "settings \<Rightarrow> llm \<Rightarrow> string \<Rightarrow> world \<Rightarrow> (exn + string) \<times> world" where
  "agenerate st service prompt w =
     (let (c, w1) = client st w;
          response = service (length (llm_log w1)) prompt;
          w2 = w1\<lparr>llm_log := llm_log w1 @ [prompt]\<rparr>
      in case response of
           Inl e \<Rightarrow> (Inl e, w2)
         | Inr generations \<Rightarrow>
             (case generations of
                [] \<Rightarrow> (Inl (ValueError ''Empty response from OpenAI''), w2)
              | g # _ \<Rightarrow>
                  (case g of
                     [] \<Rightarrow> (Inl (ValueError ''Empty response from OpenAI''), w2)
                   | generation # _ \<Rightarrow> (Inr generation, w2))))"

text \<open>
  \<open>generate_completion\<close>: the maximum output tokens are overridden when the argument is
  truthy (given and not zero) and written back after the request has returned; an
  exception of the request leaves the function before the value is written back.
\<close>

definition set_max_tokens :: "int \<Rightarrow> world \<Rightarrow> world" where
  "set_max_tokens m w =
     (case chat w of None \<Rightarrow> w | Some c \<Rightarrow> w\<lparr>chat := Some (c\<lparr>max_tokens := m\<rparr>)\<rparr>)"

fun truthy_int :: "int option \<Rightarrow> bool" where
  "truthy_int None = False"
| "truthy_int (Some m) = (m \<noteq> 0)"

definition generate_completion ::
  "settings \<Rightarrow> llm \<Rightarrow> string \<Rightarrow> int option \<Rightarrow> world \<Rightarrow> (exn + string) \<times> world" where
  "generate_completion st service prompt max_tokens_arg w =
     (let (c, w1) = client st w;
          original_max_tokens = max_tokens c;
          w2 = (if truthy_int max_tokens_arg
                then set_max_tokens (get_or max_tokens_arg 0) w1 else w1);
          (response, w3) = agenerate st service prompt w2
      in case response of
           Inl e \<Rightarrow> (Inl e, w3)
         | Inr content \<Rightarrow> (Inr content, set_max_tokens original_max_tokens w3))"

subsection \<open>Issue tracker client\<close>

definition required_fields :: "string list" where
  "required_fields = [''project'', ''summary'', ''issuetype'']"

definition missing_field_msg :: "string \<Rightarrow> string" where
  "missing_field_msg field =
     ''Required field '' @ [CHR 0x27] @ field @ [CHR 0x27] @ '' is missing from issue data''"

definition project_format_msg :: string where
  "project_format_msg =
     ''Project must be a dictionary with '' @ [CHR 0x27] @ ''key'' @ [CHR 0x27] @ '' field''"

definition issuetype_format_msg :: string where
  "issuetype_format_msg =
     ''Issue type must be a dictionary with '' @ [CHR 0x27] @ ''name'' @ [CHR 0x27] @ '' field''"

text \<open>The loop over the required fields: the first one missing, in the order of the list.\<close>

fun first_missing :: "string list \<Rightarrow> dict \<Rightarrow> string option" where
  "first_missing [] d = None"
| "first_missing (field # others) d =
     (if map_of d field = None then Some field else first_missing others d)"

definition validate_issue_data :: "dict \<Rightarrow> exn + unit" where
  "validate_issue_data issue_data =
     (case first_missing required_fields issue_data of
        Some field \<Rightarrow> Inl (ValueError (missing_field_msg field))
      | None \<Rightarrow>
          if \<not> dict_with_key (map_of issue_data ''project'') ''key''
          then Inl (ValueError project_format_msg)
          else if \<not> dict_with_key (map_of issue_data ''issuetype'') ''name''
          then Inl (ValueError issuetype_format_msg)
          else Inr ())"

text \<open>
  \<open>create_issue\<close>: validation first; only a valid payload is sent to the service, and the
  request is recorded in the world. An exception, of the validation or of the service, is
  raised again. The issue reference returned reads the project key from the payload, which
  after the validation is a dictionary.
\<close>

definition create_issue ::
  "settings \<Rightarrow> tracker \<Rightarrow> dict \<Rightarrow> world \<Rightarrow> (exn + dict) \<times> world" where
  "create_issue st service issue_data w =
     (case validate_issue_data issue_data of
        Inl e \<Rightarrow> (Inl e, w)
      | Inr _ \<Rightarrow>
          (let response = service (length (jira_log w)) issue_data;
               w' = w\<lparr>jira_log := jira_log w @ [issue_data]\<rparr>
           in case response of
                Inl e \<Rightarrow> (Inl e, w')
              | Inr (issue_key, issue_id) \<Rightarrow>
                  (Inr [(''key'', JStr issue_key),
                        (''id'', JStr issue_id),
                        (''url'', JStr (jira_url st @ ''/browse/'' @ issue_key)),
                        (''summary'', dict_get issue_data ''summary''),
                        (''project'',
                           (case map_of issue_data ''project'' of
                              Some (JDict p) \<Rightarrow> dict_get p ''key''
                            | _ \<Rightarrow> JNull))],
                   w')))"

section \<open>Workflow controller\<close>

record agent_state =
  stories :: "story list"
  current_story :: "story option"
  expanded_story :: "string option"
  jira_issue :: "dict option"
  error :: "string option"

definition initial_state :: agent_state where
  "initial_state = \<lparr>stories = [], current_story = None, expanded_story = None,
     jira_issue = None, error = None\<rparr>"

record jira_agent =
  agent_config :: config
  dry_run :: bool
  agent_settings :: settings
  llm_client :: llm
  jira_client :: tracker

text \<open>Truthiness of the current story: \<open>None\<close> and the dictionary with no key are falsy.\<close>

fun truthy_story :: "story option \<Rightarrow> bool" where
  "truthy_story None = False"
| "truthy_story (Some s) = (s \<noteq> empty_dict)"

definition load_stories :: "jira_agent \<Rightarrow> agent_state \<times> world \<Rightarrow> agent_state \<times> world" where
  "load_stories a = (\<lambda>(state, w).
     (state\<lparr>stories := get_or (cfg_stories (agent_config a)) []\<rparr>, w))"

definition process_story :: "jira_agent \<Rightarrow> agent_state \<times> world \<Rightarrow> agent_state \<times> world" where
  "process_story a = (\<lambda>(state, w).
     (case stories state of
        [] \<Rightarrow> (state, w)
      | s # rest \<Rightarrow> (state\<lparr>current_story := Some s, stories := rest\<rparr>, w)))"

definition expand_story :: "jira_agent \<Rightarrow> agent_state \<times> world \<Rightarrow> agent_state \<times> world" where
  "expand_story a = (\<lambda>(state, w).
     (case current_story state of
        None \<Rightarrow> (state\<lparr>error := Some ''No current story to expand''\<rparr>, w)
      | Some s \<Rightarrow>
          if s = empty_dict then (state\<lparr>error := Some ''No current story to expand''\<rparr>, w)
          else
            (case generate_expansion_prompt s of
               Inl e \<Rightarrow> (state\<lparr>error := Some (''Error expanding story: '' @ exn_msg e)\<rparr>, w)
             | Inr prompt \<Rightarrow>
                 (case agenerate (agent_settings a) (llm_client a) prompt w of
                    (Inl e, w') \<Rightarrow>
                      (state\<lparr>error := Some (''Error expanding story: '' @ exn_msg e)\<rparr>, w')
                  | (Inr content, w') \<Rightarrow> (state\<lparr>expanded_story := Some content\<rparr>, w')))))"

definition dry_run_issue :: dict where
  "dry_run_issue = [(''key'', JStr ''DRY-RUN-123''), (''dry_run'', JBool True)]"

definition create_jira_issue ::
  "jira_agent \<Rightarrow> agent_state \<times> world \<Rightarrow> agent_state \<times> world" where
  "create_jira_issue a = (\<lambda>(state, w).
     if truthy_str (error state) then (state, w)
     else if \<not> truthy_str (expanded_story state) \<or> \<not> truthy_story (current_story state)
     then (state\<lparr>error := Some ''Missing expanded story or current story''\<rparr>, w)
     else
       (let issue_data =
              prepare_issue_data (agent_settings a) (agent_config a)
                (get_or (current_story state) empty_dict) (get_or (expanded_story state) [])
        in if dry_run a then (state\<lparr>jira_issue := Some dry_run_issue\<rparr>, w)
           else
             (case create_issue (agent_settings a) (jira_client a) issue_data w of
                (Inl e, w') \<Rightarrow>
                  (state\<lparr>error := Some (''Error creating JIRA issue: '' @ exn_msg e)\<rparr>, w')
              | (Inr issue, w') \<Rightarrow> (state\<lparr>jira_issue := Some issue\<rparr>, w'))))"

definition handle_error :: "jira_agent \<Rightarrow> agent_state \<times> world \<Rightarrow> agent_state \<times> world" where
  "handle_error a = (\<lambda>(state, w).
     if truthy_str (error state)
     then (state\<lparr>error := None, current_story := None, expanded_story := None,
                  jira_issue := None\<rparr>, w)
     else (state, w))"

subsection \<open>The workflow graph\<close>

text \<open>
  The graph as \<open>_build_graph\<close> wires it: five nodes, the five edges added, the entry point.
  No finish point is set and no edge is conditional. One step runs the function of the
  current node and follows its outgoing edge; a node with no outgoing edge would end the
  run. \<open>ainvoke\<close> runs from the entry point on a fresh state and returns the final state
  when the run ends within the given number of steps.
\<close>

datatype node = LoadStories | ProcessStory | ExpandStory | CreateJiraIssue | HandleError

definition edges :: "(node \<times> node) list" where
  "edges =
     [(LoadStories, ProcessStory),
      (ProcessStory, ExpandStory),
      (ExpandStory, CreateJiraIssue),
      (CreateJiraIssue, ProcessStory),
      (HandleError, ProcessStory)]"

definition entry_point :: node where
  "entry_point = LoadStories"

fun node_fn :: "jira_agent \<Rightarrow> node \<Rightarrow> agent_state \<times> world \<Rightarrow> agent_state \<times> world" where
  "node_fn a LoadStories = load_stories a"
| "node_fn a ProcessStory = process_story a"
| "node_fn a ExpandStory = expand_story a"
| "node_fn a CreateJiraIssue = create_jira_issue a"
| "node_fn a HandleError = handle_error a"

text \<open>
  \<open>after_steps a k nd sw\<close>: the node about to run and the state after \<open>k\<close> nodes have run,
  starting at node \<open>nd\<close>; \<open>None\<close> when the run has ended before.
\<close>

fun after_steps ::
  "jira_agent \<Rightarrow> nat \<Rightarrow> node \<Rightarrow> agent_state \<times> world \<Rightarrow> (node \<times> agent_state \<times> world) option" where
  "after_steps a 0 nd sw = Some (nd, sw)"
| "after_steps a (Suc k) nd sw =
     (case map_of edges nd of
        None \<Rightarrow> None
      | Some nd' \<Rightarrow> after_steps a k nd' (node_fn a nd sw))"

fun run_graph ::
  "jira_agent \<Rightarrow> nat \<Rightarrow> node \<Rightarrow> agent_state \<times> world \<Rightarrow> (agent_state \<times> world) option" where
  "run_graph a 0 nd sw = None"
| "run_graph a (Suc k) nd sw =
     (case map_of edges nd of
        None \<Rightarrow> Some (node_fn a nd sw)
      | Some nd' \<Rightarrow> run_graph a k nd' (node_fn a nd sw))"

definition ainvoke :: "jira_agent \<Rightarrow> nat \<Rightarrow> world \<Rightarrow> (agent_state \<times> world) option" where
  "ainvoke a fuel w = run_graph a fuel entry_point (initial_state, w)"

definition initial_world :: world where
  "initial_world = \<lparr>chat = None, llm_log = [], jira_log = []\<rparr>"

section \<open>Example runs\<close>

text \<open>
  Concrete inputs on which the properties below are evaluated: settings, two stories with
  a title each, a language-model service whose first request times out and whose later
  requests answer, one that always answers, one that never does, and a tracker service
  that accepts every issue.
\<close>

definition example_settings :: settings where
  "example_settings = \<lparr>jira_url = ''https://jira.example.com'', jira_project_key = ''PROJ'',
     timeout_seconds = 30, max_retries = 3\<rparr>"

definition story_a :: story where
  "story_a = empty_dict\<lparr>title := Some ''A''\<rparr>"

definition story_b :: story where
  "story_b = empty_dict\<lparr>title := Some ''B''\<rparr>"

definition failing_first :: llm where
  "failing_first n prompt =
     (if n = 0 then Inl (UpstreamError ''timeout'') else Inr [[''expanded text'']])"

definition answering :: llm where
  "answering n prompt = Inr [[''expanded text'']]"

definition always_failing :: llm where
  "always_failing n prompt = Inl (UpstreamError ''timeout'')"

definition accepting_tracker :: tracker where
  "accepting_tracker n issue_data = Inr (''PROJ-1'', ''10001'')"

definition two_story_agent :: jira_agent where
  "two_story_agent =
     \<lparr>agent_config = \<lparr>cfg_global = None, cfg_stories = Some [story_a, story_b]\<rparr>,
      dry_run = False, agent_settings = example_settings, llm_client = failing_first,
      jira_client = accepting_tracker\<rparr>"

definition dry_run_agent :: jira_agent where
  "dry_run_agent =
     \<lparr>agent_config = \<lparr>cfg_global = None, cfg_stories = Some [story_a]\<rparr>,
      dry_run = True, agent_settings = example_settings, llm_client = answering,
      jira_client = accepting_tracker\<rparr>"




definition world_with_client :: world where
  "world_with_client =
     initial_world\<lparr>chat := Some \<lparr>model_name = ''gpt-4'', max_tokens = 1000, timeout = 30,
       chat_max_retries = 3\<rparr>\<rparr>"

text \<open>
  A story whose \<open>labels\<close> and \<open>components\<close> keys are present and empty, under a global
  section that gives both; and a story whose \<open>project\<close> key is present and empty.
\<close>

definition story_empty_lists :: story where
  "story_empty_lists = empty_dict\<lparr>title := Some ''A'', labels := Some [], components := Some []\<rparr>"

definition config_with_lists :: config where
  "config_with_lists =
     \<lparr>cfg_global = Some (no_global\<lparr>g_labels := Some [''backend''], g_components := Some [''api'']\<rparr>),
      cfg_stories = Some [story_empty_lists]\<rparr>"

definition story_empty_project :: story where
  "story_empty_project = empty_dict\<lparr>title := Some ''A'', project := Some []\<rparr>"

definition config_plain :: config where
  "config_plain = \<lparr>cfg_global = None, cfg_stories = Some [story_empty_project]\<rparr>"

section \<open>Properties of the prompt builder\<close>

subsection \<open>The rendered prompt\<close>

text \<open>
  Text without braces is copied by \<open>format_str\<close>, and a replacement field is replaced by
  its keyword argument. With these two facts the template is rendered piece by piece.
\<close>

lemma format_str_plain:
  "list_all (\<lambda>c. c \<noteq> CHR ''{'' \<and> c \<noteq> CHR ''}'') xs \<Longrightarrow>
   format_str (xs @ rest) kw =
     (case format_str rest kw of Inl e \<Rightarrow> Inl e | Inr out \<Rightarrow> Inr (xs @ out))"
  by (induction xs) (auto split: sum.splits)

lemma field_name_append:
  "CHR ''}'' \<notin> set n \<Longrightarrow> field_name (n @ CHR ''}'' # rest) = Some (n, rest)"
  by (induction n) auto

lemma format_str_field:
  assumes "n \<noteq> []" "hd n \<noteq> CHR ''{''" "CHR ''}'' \<notin> set n"
  shows "format_str (CHR ''{'' # n @ CHR ''}'' # rest) kw =
     (case map_of kw n of
        None \<Rightarrow> Inl (KeyError n)
      | Some v \<Rightarrow> (case format_str rest kw of Inl e \<Rightarrow> Inl e | Inr out \<Rightarrow> Inr (v @ out)))"
proof -
  from assms obtain d ds where n: "n = d # ds" "d \<noteq> CHR ''{''"
    by (cases n) auto
  have "field_name (n @ CHR ''}'' # rest) = Some (n, rest)"
    using assms(3) by (rule field_name_append)
  then show ?thesis
    unfolding n by (simp del: field_name.simps add: n(2))
qed

lemma prompt_instructions_plain:
  "list_all (\<lambda>c. c \<noteq> CHR ''{'' \<and> c \<noteq> CHR ''}'') prompt_instructions"
  by (simp add: prompt_instructions_def nl_def)

lemma prompt_closing_plain:
  "list_all (\<lambda>c. c \<noteq> CHR ''{'' \<and> c \<noteq> CHR ''}'') prompt_closing"
  by (simp add: prompt_closing_def nl_def)

lemma format_str_closing: "format_str prompt_closing kw = Inr prompt_closing"
  using format_str_plain [OF prompt_closing_plain, of "[]" kw] by simp

lemma format_str_story_information:
  "format_str
     (''Title: {title}'' @ nl @ ''Description: {description}'' @ nl @
      ''Priority: {priority}'' @ nl @ ''Labels: {labels}'' @ nl @
      ''Components: {components}'' @ nl @ rest)
     [(''title'', t), (''description'', d), (''priority'', p), (''labels'', l),
      (''components'', c)] =
   (case format_str rest
           [(''title'', t), (''description'', d), (''priority'', p), (''labels'', l),
            (''components'', c)] of
      Inl e \<Rightarrow> Inl e
    | Inr out \<Rightarrow>
        Inr (''Title: '' @ t @ nl @ ''Description: '' @ d @ nl @ ''Priority: '' @ p @ nl @
             ''Labels: '' @ l @ nl @ ''Components: '' @ c @ nl @ out))"
  by (simp add: nl_def split: sum.splits)

lemma generate_expansion_prompt_eq:
  "generate_expansion_prompt s =
     Inr (prompt_instructions @
          ''Title: '' @ get_or (title s) ''Untitled Story'' @ nl @
          ''Description: '' @ get_or (description s) ''No description provided'' @ nl @
          ''Priority: '' @ get_or (priority s) ''Medium'' @ nl @
          ''Labels: '' @ joined_or_none (labels s) @ nl @
          ''Components: '' @ joined_or_none (components s) @ nl @
          prompt_closing)"
  unfolding generate_expansion_prompt_def base_prompt_def
  by (simp only: format_str_plain [OF prompt_instructions_plain]
        format_str_story_information format_str_closing sum.case)

text \<open>
  C7. The prompt builder never fails on a story of the data model: for every story the
  result is the template with \<open>title\<close>, \<open>description\<close> and \<open>priority\<close> replaced by the
  story's value or, when the key is absent, by \<open>Untitled Story\<close>, \<open>No description provided\<close>
  and \<open>Medium\<close>; the labels and components lines hold the comma-joined names, and the
  literal \<open>None\<close> when the key is absent or the list is empty. Being a function of the
  story alone, the result is deterministic and has no effect.
\<close>

theorem generate_expansion_prompt_renders:
  "generate_expansion_prompt s =
     Inr (prompt_instructions @
          ''Title: '' @ get_or (title s) ''Untitled Story'' @ nl @
          ''Description: '' @ get_or (description s) ''No description provided'' @ nl @
          ''Priority: '' @ get_or (priority s) ''Medium'' @ nl @
          ''Labels: '' @ joined_or_none (labels s) @ nl @
          ''Components: '' @ joined_or_none (components s) @ nl @
          prompt_closing)
   \<and> joined_or_none None = ''None'' \<and> joined_or_none (Some []) = ''None''"
proof -
  have "joined_or_none None = ''None''" "joined_or_none (Some []) = ''None''"
    by (simp_all add: joined_or_none_def or_else_def)
  with generate_expansion_prompt_eq [of s] show ?thesis by simp
qed

text \<open>The story with no key at all renders every default.\<close>

theorem generate_expansion_prompt_renders_witness:
  "generate_expansion_prompt empty_dict =
     Inr (prompt_instructions @
          ''Title: Untitled Story'' @ nl @
          ''Description: No description provided'' @ nl @
          ''Priority: Medium'' @ nl @
          ''Labels: None'' @ nl @
          ''Components: None'' @ nl @
          prompt_closing)"
  using generate_expansion_prompt_renders [of empty_dict]
  by (simp add: empty_dict_def)

section \<open>Properties of the issue tracker client\<close>

lemma first_missing_Some:
  "field \<in> set fs \<Longrightarrow> map_of d field = None \<Longrightarrow>
   \<exists>f. first_missing fs d = Some f \<and> f \<in> set fs \<and> map_of d f = None"
  by (induction fs) auto

text \<open>
  C6. When one of \<open>project\<close>, \<open>summary\<close>, \<open>issuetype\<close> is missing from the payload,
  \<open>create_issue\<close> raises the \<open>ValueError\<close> of the validation, whose message names a missing
  field (the first one in the order of the list), and returns the world as it was: the
  tracker service is not called and no issue is created.
\<close>

theorem create_issue_validates_first:
  assumes "field \<in> set required_fields" and "map_of issue_data field = None"
  shows "\<exists>f. f \<in> set required_fields \<and> map_of issue_data f = None \<and>
           validate_issue_data issue_data = Inl (ValueError (missing_field_msg f)) \<and>
           create_issue st service issue_data w = (Inl (ValueError (missing_field_msg f)), w)"
proof -
  from first_missing_Some [OF assms] obtain f where
    f: "first_missing required_fields issue_data = Some f" "f \<in> set required_fields"
       "map_of issue_data f = None"
    by blast
  have v: "validate_issue_data issue_data = Inl (ValueError (missing_field_msg f))"
    by (simp add: validate_issue_data_def f(1))
  then have "create_issue st service issue_data w = (Inl (ValueError (missing_field_msg f)), w)"
    by (simp add: create_issue_def)
  with f v show ?thesis by blast
qed

text \<open>A payload with a project and a summary and no issue type.\<close>

theorem create_issue_validates_first_witness:
  "''issuetype'' \<in> set required_fields \<and>
   map_of [(''project'', JDict [(''key'', JStr ''PROJ'')]), (''summary'', JStr ''A'')]
     ''issuetype'' = None \<and>
   (\<exists>f. create_issue example_settings accepting_tracker
           [(''project'', JDict [(''key'', JStr ''PROJ'')]), (''summary'', JStr ''A'')]
           initial_world =
         (Inl (ValueError (missing_field_msg f)), initial_world))"
proof -
  have h1: "''issuetype'' \<in> set required_fields"
    by (simp add: required_fields_def)
  have h2: "map_of [(''project'', JDict [(''key'', JStr ''PROJ'')]), (''summary'', JStr ''A'')]
     ''issuetype'' = None"
    by simp
  from create_issue_validates_first [OF h1 h2, of example_settings accepting_tracker initial_world]
  show ?thesis using h1 h2 by blast
qed

section \<open>Properties of the issue field derivation\<close>

lemma map_of_dict_set: "map_of (dict_set d k v) k' = (if k' = k then Some v else map_of d k')"
  by (induction d k v rule: dict_set.induct) auto

text \<open>
  C4, as the code has it. The labels are the story's \<open>labels\<close> when the story has that key
  (also when its list is empty), otherwise the global section's \<open>labels\<close> when it has the
  key, otherwise the empty list; the request has a \<open>labels\<close> key exactly when that list is
  not empty, and then holds it. The components follow the same rule, each name wrapped as
  a dictionary with the key \<open>name\<close>.
\<close>

theorem prepare_issue_data_labels_components:
  "map_of (prepare_issue_data st cfg s e) ''labels'' =
     (if get_or (labels s) (get_or (g_labels (get_or (cfg_global cfg) no_global)) []) = []
      then None
      else Some (JList (map JStr
             (get_or (labels s) (get_or (g_labels (get_or (cfg_global cfg) no_global)) [])))))
   \<and> map_of (prepare_issue_data st cfg s e) ''components'' =
     (if get_or (components s) (get_or (g_components (get_or (cfg_global cfg) no_global)) []) = []
      then None
      else Some (JList (map (\<lambda>c. JDict [(''name'', JStr c)])
             (get_or (components s)
                (get_or (g_components (get_or (cfg_global cfg) no_global)) [])))))"
  by (simp add: prepare_issue_data_def Let_def map_of_dict_set)

text \<open>
  The claim as the specification states it fails where the story's list is present and
  empty: the global section's labels and components are not used, and both keys are
  omitted.
\<close>

theorem labels_fallback_counterexample:
  "labels story_empty_lists = Some [] \<and>
   g_labels (get_or (cfg_global config_with_lists) no_global) = Some [''backend''] \<and>
   map_of (prepare_issue_data example_settings config_with_lists story_empty_lists
             ''expanded text'') ''labels'' = None \<and>
   components story_empty_lists = Some [] \<and>
   g_components (get_or (cfg_global config_with_lists) no_global) = Some [''api''] \<and>
   map_of (prepare_issue_data example_settings config_with_lists story_empty_lists
             ''expanded text'') ''components'' = None"
  by (simp add: prepare_issue_data_def Let_def story_empty_lists_def config_with_lists_def
        empty_dict_def no_global_def)

theorem prepare_issue_data_labels_components_witness:
  "map_of (prepare_issue_data example_settings config_with_lists story_a ''expanded text'')
     ''labels'' = Some (JList [JStr ''backend'']) \<and>
   map_of (prepare_issue_data example_settings config_with_lists story_a ''expanded text'')
     ''components'' = Some (JList [JDict [(''name'', JStr ''api'')]])"
  using prepare_issue_data_labels_components
    [of example_settings config_with_lists story_a "''expanded text''"]
  by (simp add: story_a_def config_with_lists_def empty_dict_def no_global_def)

text \<open>
  C5, as the code has it. The project of the request is the story's \<open>project\<close> when the
  story has that key, otherwise the global section's when it has the key, otherwise the
  project key of the settings. An empty project is not rejected: the request carries the
  resolved value as its project key whatever it is, and the validation of the tracker
  client, which looks only at the shape of the project, accepts the request.
\<close>

theorem prepare_issue_data_project:
  "map_of (prepare_issue_data st cfg s e) ''project'' =
     Some (JDict [(''key'',
       JStr (get_or (project s)
              (get_or (g_project (get_or (cfg_global cfg) no_global)) (jira_project_key st))))])
   \<and> validate_issue_data (prepare_issue_data st cfg s e) = Inr ()"
  by (simp add: prepare_issue_data_def Let_def map_of_dict_set validate_issue_data_def
        required_fields_def)

text \<open>
  The claim as the specification states it fails for a story whose \<open>project\<close> is the empty
  string: the request is derived with an empty project key, the validation accepts it, the
  dry-run submit step records the placeholder issue with no error, and in real mode the
  request is sent to the tracker.
\<close>

theorem empty_project_counterexample:
  "project story_empty_project = Some [] \<and>
   map_of (prepare_issue_data example_settings config_plain story_empty_project
             ''expanded text'') ''project'' = Some (JDict [(''key'', JStr [])]) \<and>
   validate_issue_data (prepare_issue_data example_settings config_plain story_empty_project
             ''expanded text'') = Inr () \<and>
   create_jira_issue (dry_run_agent\<lparr>agent_config := config_plain\<rparr>)
     (initial_state\<lparr>current_story := Some story_empty_project,
        expanded_story := Some ''expanded text''\<rparr>, initial_world) =
     (initial_state\<lparr>current_story := Some story_empty_project,
        expanded_story := Some ''expanded text'', jira_issue := Some dry_run_issue\<rparr>,
      initial_world) \<and>
   create_issue example_settings accepting_tracker
     (prepare_issue_data example_settings config_plain story_empty_project ''expanded text'')
     initial_world =
     (Inr [(''key'', JStr ''PROJ-1''), (''id'', JStr ''10001''),
           (''url'', JStr ''https://jira.example.com/browse/PROJ-1''),
           (''summary'', JStr ''A''), (''project'', JStr [])],
      initial_world\<lparr>jira_log :=
        [prepare_issue_data example_settings config_plain story_empty_project
           ''expanded text'']\<rparr>)"
  by (simp add: prepare_issue_data_def Let_def story_empty_project_def config_plain_def
        empty_dict_def no_global_def validate_issue_data_def required_fields_def
        create_jira_issue_def dry_run_agent_def initial_state_def create_issue_def
        accepting_tracker_def dict_get_def example_settings_def initial_world_def)

theorem prepare_issue_data_project_witness:
  "map_of (prepare_issue_data example_settings config_with_lists story_a ''expanded text'')
     ''project'' = Some (JDict [(''key'', JStr ''PROJ'')])"
  using prepare_issue_data_project
    [of example_settings config_with_lists story_a "''expanded text''"]
  by (simp add: story_a_def config_with_lists_def empty_dict_def no_global_def
        example_settings_def)

section \<open>Properties of the workflow controller\<close>

lemma client_logs:
  "client st w = (c, w') \<Longrightarrow> llm_log w' = llm_log w \<and> jira_log w' = jira_log w"
  by (auto simp: client_def Let_def split: option.splits)

lemma agenerate_jira_log: "agenerate st svc p w = (r, w') \<Longrightarrow> jira_log w' = jira_log w"
  by (auto simp: agenerate_def Let_def split: prod.splits sum.splits list.splits
        dest: client_logs)

lemma edges_total: "\<exists>nd'. map_of edges nd = Some nd' \<and> nd' \<noteq> HandleError"
  by (cases nd) (simp_all add: edges_def)

lemma after_steps_add:
  "after_steps a (m + k) nd sw =
     (case after_steps a m nd sw of None \<Rightarrow> None | Some (nd', sw') \<Rightarrow> after_steps a k nd' sw')"
  by (induction m arbitrary: nd sw) (auto split: option.splits)

subsection \<open>The run of two stories whose first expansion fails\<close>

text \<open>
  The state after seven nodes (load, then dequeue, expand and submit for each story) and
  after five (the second story just dequeued).
\<close>

lemma two_story_seven_steps:
  "\<exists>st w. after_steps two_story_agent 7 entry_point (initial_state, initial_world) =
       Some (ProcessStory, st, w) \<and>
     stories st = [] \<and> current_story st = Some story_b \<and>
     expanded_story st = Some ''expanded text'' \<and> jira_issue st = None \<and>
     error st = Some ''Error expanding story: timeout'' \<and> length (llm_log w) = 2 \<and>
     jira_log w = []"
  using generate_expansion_prompt_eq [of story_a] generate_expansion_prompt_eq [of story_b]
  by (simp add: numeral_eq_Suc entry_point_def edges_def two_story_agent_def
        load_stories_def process_story_def expand_story_def create_jira_issue_def
        initial_state_def initial_world_def agenerate_def client_def Let_def
        failing_first_def story_a_def story_b_def empty_dict_def example_settings_def)

lemma two_story_five_steps:
  "\<exists>st w. after_steps two_story_agent 5 entry_point (initial_state, initial_world) =
       Some (ExpandStory, st, w) \<and>
     stories st = [] \<and> current_story st = Some story_b \<and>
     expanded_story st = None \<and> jira_issue st = None \<and>
     error st = Some ''Error expanding story: timeout'' \<and> jira_log w = []"
  using generate_expansion_prompt_eq [of story_a]
  by (simp add: numeral_eq_Suc entry_point_def edges_def two_story_agent_def
        load_stories_def process_story_def expand_story_def create_jira_issue_def
        initial_state_def initial_world_def agenerate_def client_def Let_def
        failing_first_def story_a_def story_b_def empty_dict_def example_settings_def)

subsection \<open>The error indicator is never the empty string\<close>

text \<open>
  Python's \<open>if state.error\<close> is false for \<open>None\<close> and for the empty string. Every error the
  controller records is a non-empty string, so in every state of a run the indicator is
  set exactly when it is truthy.
\<close>

lemma node_fn_error_nonempty:
  assumes "error st \<noteq> Some []" "node_fn a nd (st, w) = (st', w')"
  shows "error st' \<noteq> Some []"
proof (cases nd)
  case LoadStories
  with assms show ?thesis by (auto simp: load_stories_def)
next
  case ProcessStory
  with assms show ?thesis by (auto simp: process_story_def split: list.splits)
next
  case ExpandStory
  with assms show ?thesis
    by (auto simp: expand_story_def split: option.splits if_splits sum.splits prod.splits)
next
  case CreateJiraIssue
  with assms show ?thesis
    by (auto simp: create_jira_issue_def Let_def split: if_splits sum.splits prod.splits)
next
  case HandleError
  with assms show ?thesis by (auto simp: handle_error_def split: if_splits)
qed

lemma after_steps_error_nonempty:
  "error st \<noteq> Some [] \<Longrightarrow> after_steps a k nd (st, w) = Some (nd', st', w') \<Longrightarrow>
   error st' \<noteq> Some []"
proof (induction k arbitrary: nd st w)
  case 0
  then show ?case by simp
next
  case (Suc k)
  obtain nd2 where e: "map_of edges nd = Some nd2"
    using edges_total by blast
  obtain st2 w2 where n: "node_fn a nd (st, w) = (st2, w2)"
    by (cases "node_fn a nd (st, w)")
  from node_fn_error_nonempty [OF Suc.prems(1) n] have "error st2 \<noteq> Some []" .
  moreover from Suc.prems(2) have "after_steps a k nd2 (st2, w2) = Some (nd', st', w')"
    by (simp add: e n)
  ultimately show ?case by (rule Suc.IH)
qed

text \<open>
  C10. In a state whose error indicator is set, the submit step returns the state and the
  world as they are: no request to the tracker, no issue reference, whatever the current
  story and the expanded content. This holds for every state whose error is a non-empty
  string, and for every state of a run whose error is not \<open>None\<close>. Conversely, when the
  submit step changes anything, the error indicator was unset.
\<close>

theorem create_jira_issue_skips_on_error:
  "(error st = Some e \<and> e \<noteq> [] \<longrightarrow> create_jira_issue a (st, w) = (st, w)) \<and>
   (after_steps a k entry_point (initial_state, w0) = Some (nd, st, w) \<and> error st \<noteq> None
      \<longrightarrow> create_jira_issue a (st, w) = (st, w)) \<and>
   (create_jira_issue a (st, w) \<noteq> (st, w) \<longrightarrow> \<not> truthy_str (error st))"
proof -
  have t: "truthy_str (error st) \<Longrightarrow> create_jira_issue a (st, w) = (st, w)"
    by (simp add: create_jira_issue_def)
  have r: "create_jira_issue a (st, w) = (st, w)"
    if "after_steps a k entry_point (initial_state, w0) = Some (nd, st, w)" "error st \<noteq> None"
  proof -
    have "error initial_state \<noteq> Some []" by (simp add: initial_state_def)
    from after_steps_error_nonempty [OF this that(1)] that(2)
    have "truthy_str (error st)" by (cases "error st") auto
    then show ?thesis by (rule t)
  qed
  from t r show ?thesis by auto
qed

text \<open>A state with a fresh current story, an expanded content and an error.\<close>

theorem create_jira_issue_skips_on_error_witness:
  "create_jira_issue two_story_agent
     (initial_state\<lparr>current_story := Some story_b, expanded_story := Some ''expanded text'',
        error := Some ''Error expanding story: timeout''\<rparr>, initial_world) =
     (initial_state\<lparr>current_story := Some story_b, expanded_story := Some ''expanded text'',
        error := Some ''Error expanding story: timeout''\<rparr>, initial_world) \<and>
   (\<exists>st w. after_steps two_story_agent 5 entry_point (initial_state, initial_world) =
        Some (ExpandStory, st, w) \<and> error st \<noteq> None \<and>
      create_jira_issue two_story_agent (st, w) = (st, w))"
proof -
  have 1: "create_jira_issue two_story_agent
     (initial_state\<lparr>current_story := Some story_b, expanded_story := Some ''expanded text'',
        error := Some ''Error expanding story: timeout''\<rparr>, initial_world) =
     (initial_state\<lparr>current_story := Some story_b, expanded_story := Some ''expanded text'',
        error := Some ''Error expanding story: timeout''\<rparr>, initial_world)"
    using create_jira_issue_skips_on_error
      [of "initial_state\<lparr>current_story := Some story_b,
             expanded_story := Some ''expanded text'',
             error := Some ''Error expanding story: timeout''\<rparr>"
          "''Error expanding story: timeout''" two_story_agent initial_world]
    by simp
  obtain st w where r:
    "after_steps two_story_agent 5 entry_point (initial_state, initial_world) =
       Some (ExpandStory, st, w)" "error st = Some ''Error expanding story: timeout''"
    using two_story_five_steps by blast
  from r(2) have n: "error st \<noteq> None" by simp
  from create_jira_issue_skips_on_error
    [of st _ two_story_agent w 5 initial_world ExpandStory] r(1) n
  have "create_jira_issue two_story_agent (st, w) = (st, w)" by blast
  with 1 r(1) n show ?thesis by blast
qed

subsection \<open>Dry run\<close>










subsection \<open>A recorded error is never cleared\<close>

text \<open>
  No edge of the graph leads to \<open>handle_error\<close>, the only node that clears the error
  indicator. On the nodes a run visits, an error once recorded stays, and with it the
  submit step creates nothing more.
\<close>

lemma node_fn_error_sticky:
  assumes "truthy_str (error st)" "nd \<noteq> HandleError" "node_fn a nd (st, w) = (st', w')"
  shows "truthy_str (error st') \<and> jira_issue st' = jira_issue st \<and> jira_log w' = jira_log w"
proof (cases nd)
  case LoadStories
  with assms show ?thesis by (auto simp: load_stories_def)
next
  case ProcessStory
  with assms show ?thesis by (auto simp: process_story_def split: list.splits)
next
  case ExpandStory
  with assms show ?thesis
    by (auto simp: expand_story_def split: option.splits if_splits sum.splits prod.splits
          dest: agenerate_jira_log)
next
  case CreateJiraIssue
  with assms show ?thesis by (auto simp: create_jira_issue_def)
next
  case HandleError
  with assms show ?thesis by simp
qed

lemma after_steps_error_sticky:
  "truthy_str (error st) \<Longrightarrow> nd \<noteq> HandleError \<Longrightarrow>
   \<exists>nd' st' w'. after_steps a k nd (st, w) = Some (nd', st', w') \<and> nd' \<noteq> HandleError \<and>
      truthy_str (error st') \<and> jira_issue st' = jira_issue st \<and> jira_log w' = jira_log w"
proof (induction k arbitrary: nd st w)
  case 0
  then show ?case by simp
next
  case (Suc k)
  obtain nd2 where e: "map_of edges nd = Some nd2" "nd2 \<noteq> HandleError"
    using edges_total by blast
  obtain st2 w2 where n: "node_fn a nd (st, w) = (st2, w2)"
    by (cases "node_fn a nd (st, w)")
  from node_fn_error_sticky [OF Suc.prems(1,2) n]
  have s: "truthy_str (error st2)" "jira_issue st2 = jira_issue st" "jira_log w2 = jira_log w"
    by simp_all
  from Suc.IH [OF s(1) e(2), of w2] show ?case
    by (simp add: e n s)
qed

lemma handle_error_unreachable:
  "nd \<noteq> HandleError \<Longrightarrow>
   \<exists>nd' sw'. after_steps a k nd sw = Some (nd', sw') \<and> nd' \<noteq> HandleError"
proof (induction k arbitrary: nd sw)
  case 0
  then show ?case by simp
next
  case (Suc k)
  obtain nd2 where e: "map_of edges nd = Some nd2" "nd2 \<noteq> HandleError"
    using edges_total by blast
  from Suc.IH [OF e(2)] show ?case by (simp add: e)
qed

text \<open>
  C1, on the code. The claim holds of the specification's state machine and fails on the
  graph as wired. Two stories, the first expansion times out, the second succeeds, the
  tracker would accept every issue. After seven nodes the queue is empty, the second
  story is current and expanded, and the submit step has run for it; yet no issue
  reference is recorded and no request has reached the tracker, because the error of the
  first story is still set. However long the run goes on, it stays so.
\<close>

theorem later_story_never_submitted:
  "(\<exists>st w. after_steps two_story_agent 7 entry_point (initial_state, initial_world) =
       Some (ProcessStory, st, w) \<and>
     stories st = [] \<and> current_story st = Some story_b \<and>
     expanded_story st = Some ''expanded text'' \<and> jira_issue st = None \<and>
     error st = Some ''Error expanding story: timeout'' \<and> jira_log w = []) \<and>
   (\<exists>nd st w. after_steps two_story_agent (7 + k) entry_point (initial_state, initial_world) =
       Some (nd, st, w) \<and> jira_issue st = None \<and> jira_log w = [])"
proof -
  obtain st w where s: "after_steps two_story_agent 7 entry_point (initial_state, initial_world) =
       Some (ProcessStory, st, w)" "stories st = []" "current_story st = Some story_b"
     "expanded_story st = Some ''expanded text''" "jira_issue st = None"
     "error st = Some ''Error expanding story: timeout''" "jira_log w = []"
    using two_story_seven_steps by blast
  have "truthy_str (error st)" by (simp add: s(6))
  from after_steps_error_sticky [OF this, of ProcessStory two_story_agent k w]
  obtain nd' st' w' where
    "after_steps two_story_agent k ProcessStory (st, w) = Some (nd', st', w')"
    "jira_issue st' = jira_issue st" "jira_log w' = jira_log w"
    by auto
  then have "after_steps two_story_agent (7 + k) entry_point (initial_state, initial_world) =
       Some (nd', st', w') \<and> jira_issue st' = None \<and> jira_log w' = []"
    by (simp add: after_steps_add s)
  with s show ?thesis by blast
qed

lemma handle_error_resets:
  "truthy_str (error st) \<Longrightarrow>
   handle_error a (st, w) =
     (st\<lparr>error := None, current_story := None, expanded_story := None, jira_issue := None\<rparr>, w)"
  by (simp add: handle_error_def)

text \<open>
  C2, on the code. \<open>handle_error\<close> resets the four fields together, but the graph never
  runs it: whatever the agent, no run from the entry point reaches that node. In the run of
  the two stories the second story is dequeued while the error of the first is still set.
\<close>

theorem error_not_reset_before_dequeue:
  "(\<exists>st w. after_steps two_story_agent 5 entry_point (initial_state, initial_world) =
       Some (ExpandStory, st, w) \<and> current_story st = Some story_b \<and>
     error st = Some ''Error expanding story: timeout'') \<and>
   (\<exists>nd sw. after_steps a k entry_point (initial_state, w0) = Some (nd, sw) \<and>
      nd \<noteq> HandleError)"
proof -
  have "entry_point \<noteq> HandleError" by (simp add: entry_point_def)
  from handle_error_unreachable [OF this]
  have "\<exists>nd sw. after_steps a k entry_point (initial_state, w0) = Some (nd, sw) \<and>
      nd \<noteq> HandleError" .
  with two_story_five_steps show ?thesis by blast
qed

subsection \<open>The empty configuration\<close>

text \<open>
  Every node has an outgoing edge, so no run ends. With an empty queue the controller
  cycles through dequeue, expand and submit without touching the world.
\<close>

lemma run_graph_never_ends: "run_graph a fuel nd sw = None"
proof (induction fuel arbitrary: nd sw)
  case 0
  show ?case by simp
next
  case (Suc fuel)
  obtain nd' where "map_of edges nd = Some nd'"
    using edges_total by blast
  with Suc show ?case by simp
qed

lemma node_fn_empty_queue:
  assumes "get_or (cfg_stories (agent_config a)) [] = []"
    "stories st = []" "current_story st = None" "jira_issue st = None"
    "node_fn a nd (st, w) = (st', w')"
  shows "stories st' = [] \<and> current_story st' = None \<and> jira_issue st' = None \<and> w' = w"
proof (cases nd)
  case LoadStories
  with assms show ?thesis by (auto simp: load_stories_def)
next
  case ProcessStory
  with assms show ?thesis by (auto simp: process_story_def)
next
  case ExpandStory
  with assms show ?thesis by (auto simp: expand_story_def)
next
  case CreateJiraIssue
  with assms show ?thesis by (auto simp: create_jira_issue_def split: if_splits)
next
  case HandleError
  with assms show ?thesis by (auto simp: handle_error_def split: if_splits)
qed

lemma after_steps_empty_queue:
  "get_or (cfg_stories (agent_config a)) [] = [] \<Longrightarrow> stories st = [] \<Longrightarrow>
   current_story st = None \<Longrightarrow> jira_issue st = None \<Longrightarrow>
   \<exists>nd' st'. after_steps a k nd (st, w) = Some (nd', st', w) \<and> jira_issue st' = None"
proof (induction k arbitrary: nd st)
  case 0
  then show ?case by simp
next
  case (Suc k)
  obtain nd2 where e: "map_of edges nd = Some nd2"
    using edges_total by blast
  obtain st2 w2 where n: "node_fn a nd (st, w) = (st2, w2)"
    by (cases "node_fn a nd (st, w)")
  from node_fn_empty_queue [OF Suc.prems n]
  have s: "stories st2 = []" "current_story st2 = None" "jira_issue st2 = None" "w2 = w"
    by simp_all
  from Suc.IH [OF Suc.prems(1) s(1,2,3), of nd2] show ?case
    by (simp add: e n s)
qed

text \<open>
  C3, on the code. For a configuration with an empty story list, whatever the agent and
  the number of steps allowed, the run does not end; meanwhile the world never changes (no
  request to the language-model service or to the tracker) and no issue is recorded. After
  load, dequeue and expand the state holds the error \<open>No current story to expand\<close>.
\<close>

theorem empty_queue_never_done:
  "ainvoke (a\<lparr>agent_config := \<lparr>cfg_global = g, cfg_stories = Some []\<rparr>\<rparr>) fuel w = None \<and>
   (\<exists>nd st. after_steps (a\<lparr>agent_config := \<lparr>cfg_global = g, cfg_stories = Some []\<rparr>\<rparr>) k
        entry_point (initial_state, w) = Some (nd, st, w) \<and> jira_issue st = None) \<and>
   (\<exists>st. after_steps (a\<lparr>agent_config := \<lparr>cfg_global = g, cfg_stories = Some []\<rparr>\<rparr>) 3
        entry_point (initial_state, w) = Some (CreateJiraIssue, st, w) \<and>
        error st = Some ''No current story to expand'')"
proof -
  let ?a = "a\<lparr>agent_config := \<lparr>cfg_global = g, cfg_stories = Some []\<rparr>\<rparr>"
  have 1: "ainvoke ?a fuel w = None"
    by (simp add: ainvoke_def run_graph_never_ends)
  have c: "get_or (cfg_stories (agent_config ?a)) [] = []" by simp
  from after_steps_empty_queue [OF c, of initial_state k entry_point w]
  have 2: "\<exists>nd st. after_steps ?a k entry_point (initial_state, w) = Some (nd, st, w) \<and>
      jira_issue st = None"
    by (simp add: initial_state_def)
  have 3: "\<exists>st. after_steps ?a 3 entry_point (initial_state, w) = Some (CreateJiraIssue, st, w) \<and>
        error st = Some ''No current story to expand''"
    by (simp add: numeral_eq_Suc entry_point_def edges_def load_stories_def process_story_def
          expand_story_def initial_state_def)
  from 1 2 3 show ?thesis by blast
qed

section \<open>Properties of the completion client\<close>

text \<open>When the request succeeds, the maximum output tokens are written back.\<close>

lemma generate_completion_restores_on_success:
  assumes "chat w = Some c" "generate_completion st svc p m w = (Inr content, w')"
  shows "map_option max_tokens (chat w') = Some (max_tokens c)"
  using assms
  by (auto simp: generate_completion_def client_def agenerate_def set_max_tokens_def Let_def
        split: if_splits sum.splits list.splits prod.splits option.splits)

text \<open>
  C9, on the code. A request that overrides the maximum output tokens and fails leaves the
  override in place: the client had 1000 tokens before the call and has 50 after it.
\<close>

theorem max_tokens_not_restored_on_failure:
  "map_option max_tokens (chat world_with_client) = Some 1000 \<and>
   fst (generate_completion example_settings always_failing ''hello'' (Some 50)
          world_with_client) = Inl (UpstreamError ''timeout'') \<and>
   map_option max_tokens
     (chat (snd (generate_completion example_settings always_failing ''hello'' (Some 50)
                   world_with_client))) = Some 50"
  by (simp add: generate_completion_def client_def agenerate_def set_max_tokens_def Let_def
        world_with_client_def initial_world_def always_failing_def)

end
